theory Spec2Isabelle
  imports Main "HOL-Library.Finite_Map" "HOL-Library.Multiset" "HOL-Library.Sublist"
begin

section \<open>Strings\<close>

text \<open>
  Go strings are byte sequences; a \<^typ>\<open>string\<close> is a list of bytes.  The functions of
  package \<open>strings\<close> that the two processors call are written out here for the
  single-byte separators the source passes (\<open>"\n"\<close>, \<open>"="\<close>, \<open>"."\<close>, \<open>":"\<close>).
\<close>

text \<open>\<open>strings.Split(s, sep)\<close> for a one-byte \<open>sep\<close>: all fields, empty ones included;
  the empty string gives one empty field.\<close>

fun Split :: "string \<Rightarrow> char \<Rightarrow> string list" where
  "Split [] sep = [[]]"
| "Split (c # cs) sep =
     (if c = sep then [] # Split cs sep
      else (case Split cs sep of [] \<Rightarrow> [[c]] | w # ws \<Rightarrow> (c # w) # ws))"

text \<open>\<open>strings.Join(elems, sep)\<close>.\<close>

fun Join :: "string list \<Rightarrow> string \<Rightarrow> string" where
  "Join [] sep = []"
| "Join [x] sep = x"
| "Join (x # y # ys) sep = x @ sep @ Join (y # ys) sep"

text \<open>\<open>strings.HasSuffix(s, suffix)\<close> and \<open>strings.TrimSuffix(s, suffix)\<close>.\<close>

definition HasSuffix :: "string \<Rightarrow> string \<Rightarrow> bool" where
  "HasSuffix s suf =
     (length suf \<le> length s \<and> drop (length s - length suf) s = suf)"

definition TrimSuffix :: "string \<Rightarrow> string \<Rightarrow> string" where
  "TrimSuffix s suf =
     (if HasSuffix s suf then take (length s - length suf) s else s)"

text \<open>\<open>strings.LastIndex(s, ":")\<close> for a one-byte separator: the index of its last
  occurrence, \<open>None\<close> for Go's \<open>-1\<close>.\<close>

fun LastIndex :: "string \<Rightarrow> char \<Rightarrow> nat option" where
  "LastIndex [] sep = None"
| "LastIndex (c # cs) sep =
     (case LastIndex cs sep of
        Some i \<Rightarrow> Some (Suc i)
      | None \<Rightarrow> (if c = sep then Some 0 else None))"

text \<open>\<open>strings.ReplaceAll(s, "'", "")\<close>: every single quote is dropped.\<close>

definition StripQuotes :: "string \<Rightarrow> string" where
  "StripQuotes s = filter (\<lambda>c. c \<noteq> CHR 0x27) s"

section \<open>Errors and diagnostics\<close>

text \<open>
  Go errors are values: a message, the error of \<open>unstructured.SetNestedField\<close> (which
  names the path prefix that is not a map), a wrapped error, and a run-time panic.
  Diagnostics go to the process-wide logger; the model collects them in a list.
\<close>

datatype error =
    Msg string
  | NotAMap "string list"
  | Wrap string error
  | Panic string

type_synonym diagnostics = "string list"

section \<open>The Values Tree\<close>

text \<open>
  \<open>helmify.Values\<close> is a \<open>map[string]interface{}\<close>.  The processors never range over it:
  they only set and read nested fields, so it is a finite map, whose equality is the
  equality of its contents.  Every value the processors store is a scalar
  (string, bool, float64 as its 64 bits, int64) and every other node is a nested map.
\<close>

datatype scalar = SString string | SBool bool | SFloat nat | SInt int

datatype vtree = VLeaf scalar | VNode "(string, vtree) fmap"

type_synonym Values = "(string, vtree) fmap"

text \<open>
  \<open>unstructured.SetNestedField(obj, value, fields...)\<close> of apimachinery: walk all fields
  but the last, descending into maps, creating a map where a field is missing, failing
  where a field holds something that is not a map; then set the last field.  Nothing is
  written before a failure, since a failure can only be met before the first missing
  field.  An empty \<open>fields\<close> slices out of range and panics.
\<close>

fun SetNestedField_at :: "string list \<Rightarrow> Values \<Rightarrow> vtree \<Rightarrow> string list \<Rightarrow> error + Values" where
  "SetNestedField_at seen obj v [] = Inl (Panic ''slice bounds out of range'')"
| "SetNestedField_at seen obj v [f] = Inr (fmupd f v obj)"
| "SetNestedField_at seen obj v (f # g # fs) =
     (case fmlookup obj f of
        None \<Rightarrow>
          (case SetNestedField_at (seen @ [f]) fmempty v (g # fs) of
             Inl e \<Rightarrow> Inl e
           | Inr m \<Rightarrow> Inr (fmupd f (VNode m) obj))
      | Some (VNode m0) \<Rightarrow>
          (case SetNestedField_at (seen @ [f]) m0 v (g # fs) of
             Inl e \<Rightarrow> Inl e
           | Inr m \<Rightarrow> Inr (fmupd f (VNode m) obj))
      | Some (VLeaf x) \<Rightarrow> Inl (NotAMap (seen @ [f])))"

definition SetNestedField :: "Values \<Rightarrow> vtree \<Rightarrow> string list \<Rightarrow> error + Values" where
  "SetNestedField obj v fields = SetNestedField_at [] obj v fields"

text \<open>
  \<open>unstructured.NestedFieldNoCopy(obj, fields...)\<close>: the value at a path, \<open>Inr None\<close>
  where a field is missing, an error where the walk meets something that is not a map
  before the path ends.
\<close>

fun NestedField :: "Values \<Rightarrow> string list \<Rightarrow> error + vtree option" where
  "NestedField obj [] = Inr (Some (VNode obj))"
| "NestedField obj (f # fs) =
     (case fmlookup obj f of
        None \<Rightarrow> Inr None
      | Some (VNode m) \<Rightarrow> NestedField m fs
      | Some (VLeaf x) \<Rightarrow> (if fs = [] then Inr (Some (VLeaf x)) else Inl (NotAMap [f])))"

text \<open>\<open>unstructured.NestedMap\<close>: the map at a path, an error when the value found
  there is not a map.\<close>

definition NestedMap :: "Values \<Rightarrow> string list \<Rightarrow> error + Values option" where
  "NestedMap obj fields =
     (case NestedField obj fields of
        Inl e \<Rightarrow> Inl e
      | Inr None \<Rightarrow> Inr None
      | Inr (Some (VNode m)) \<Rightarrow> Inr (Some m)
      | Inr (Some (VLeaf x)) \<Rightarrow> Inl (NotAMap fields))"

text \<open>The placeholder expression of a path: \<open>{{ .Values.<dot-joined path> }}\<close>.\<close>

definition placeholder :: "string list \<Rightarrow> string" where
  "placeholder name = ''{{ .Values.'' @ Join name ''.'' @ '' }}''"

text \<open>
  Modelled from the spec: \<open>Values.Add\<close> of package \<open>helmify\<close> is not among the source
  files.  Section 4.3: it creates the intermediate mapping levels for every path segment
  but the last, fails if an intermediate segment already holds a scalar, sets the
  terminal segment to the value and returns the placeholder derived from the normalised
  path.  The normaliser of path segments is the parameter \<open>lc\<close> (lower camel case in the
  program).
\<close>

definition Add :: "(string \<Rightarrow> string) \<Rightarrow> Values \<Rightarrow> scalar \<Rightarrow> string list \<Rightarrow> error + (string \<times> Values)" where
  "Add lc values v name =
     (case SetNestedField values (VLeaf v) (map lc name) of
        Inl e \<Rightarrow> Inl (Wrap ''unable to set value'' e)
      | Inr values' \<Rightarrow> Inr (placeholder (map lc name), values'))"

section \<open>Lower camel case\<close>

text \<open>
  \<open>strcase.ToLowerCamel\<close> belongs to a library outside the repository.  Every general
  theorem below holds for any normaliser; the concrete scenarios use this transcription
  of the library's byte loop: separators \<open>_\<close>, space, \<open>-\<close> and \<open>.\<close> are dropped and
  capitalise the next letter, so does a digit (which is kept), any other byte is dropped,
  and a leading capital is lowered.
\<close>

definition isCap :: "char \<Rightarrow> bool" where
  "isCap c = (65 \<le> (of_char c :: nat) \<and> (of_char c :: nat) \<le> 90)"

definition isLow :: "char \<Rightarrow> bool" where
  "isLow c = (97 \<le> (of_char c :: nat) \<and> (of_char c :: nat) \<le> 122)"

definition isNum :: "char \<Rightarrow> bool" where
  "isNum c = (48 \<le> (of_char c :: nat) \<and> (of_char c :: nat) \<le> 57)"

definition isDelim :: "char \<Rightarrow> bool" where
  "isDelim c = (c = CHR ''_'' \<or> c = CHR '' '' \<or> c = CHR ''-'' \<or> c = CHR ''.'')"

definition toUpper :: "char \<Rightarrow> char" where
  "toUpper c = (if isLow c then char_of ((of_char c :: nat) - 32) else c)"

definition toLower :: "char \<Rightarrow> char" where
  "toLower c = (if isCap c then char_of ((of_char c :: nat) + 32) else c)"

fun camelLoop :: "bool \<Rightarrow> bool \<Rightarrow> string \<Rightarrow> string" where
  "camelLoop first capNext [] = []"
| "camelLoop first capNext (c # cs) =
     (let v = (if capNext then toUpper c else if first then toLower c else c) in
      if isCap c \<or> isLow c then v # camelLoop False False cs
      else if isNum c then v # camelLoop False True cs
      else camelLoop False (isDelim c) cs)"

definition ToLowerCamel :: "string \<Rightarrow> string" where
  "ToLowerCamel s = (if s = ''ID'' then ''id'' else camelLoop True False s)"

section \<open>ConfigMap: the line-oriented property extractor\<close>

text \<open>
  \<open>parseProperties\<close>: the loop over the lines, with the string builder \<open>res\<close> and the
  Values Tree passed along.  The tree is a Go map, mutated in place: what was added
  before a failing line is still in it when the error is returned, so the tree is
  returned in both cases.  \<open>WriteString\<close> of a \<open>strings.Builder\<close> never fails.
\<close>

definition fmtPath :: "string list \<Rightarrow> string" where
  "fmtPath path = ''['' @ Join path '' '' @ '']''"

fun parsePropertyLines ::
  "(string \<Rightarrow> string) \<Rightarrow> string list \<Rightarrow> string list \<Rightarrow> Values \<Rightarrow> string \<Rightarrow> (error + string) \<times> Values" where
  "parsePropertyLines lc [] path values res = (Inr res, values)"
| "parsePropertyLines lc (line # rest) path values res =
     (let prop = Split line CHR ''='' in
      if length prop \<noteq> 2
      then (Inl (Msg (''wrong property format in '' @ fmtPath path @ '': '' @ line)), values)
      else
        (let propName = prop ! 0; propVal = prop ! 1;
             propNamePath = Split propName CHR ''.'' in
         case Add lc values (SString propVal) (path @ propNamePath) of
           Inl e \<Rightarrow> (Inl e, values)
         | Inr (templatedVal, values') \<Rightarrow>
             parsePropertyLines lc rest path values'
               (res @ propName @ ''='' @ templatedVal @ ''\<newline>'')))"

definition parseProperties ::
  "(string \<Rightarrow> string) \<Rightarrow> string \<Rightarrow> string list \<Rightarrow> Values \<Rightarrow> (error + string) \<times> Values" where
  "parseProperties lc properties path values =
     parsePropertyLines lc (Split (TrimSuffix properties ''\<newline>'') CHR 0x0A) path values []"

section \<open>Decoded content\<close>

text \<open>
  A decoded payload is a Go \<open>interface{}\<close>: a scalar, a slice, a \<open>map[string]interface{}\<close>,
  a \<open>map[interface{}]interface{}\<close>, or anything else (\<open>nil\<close> included, with the name of
  its type).  Go ranges over a map in an order of its own choosing; a map is an
  association list here, whose order is the order in which this run visits the keys.
\<close>

datatype dyn =
    DScalar scalar
  | DSlice "dyn list"
  | DMap "(string \<times> dyn) list"
  | DIfaceMap "(dyn \<times> dyn) list"
  | DOther string

datatype diag =
    LogError error string
  | LogWarn string
  | Stdout string

section \<open>ConfigMap: the structural value extractor\<close>

text \<open>
  \<open>parseConfig\<close> ranges over the map and rewrites it in place; the model returns the
  rewritten map, the Values Tree and the diagnostics, in the order of the visit.  A
  \<open>map[interface{}]interface{}\<close> never asserts to \<open>map[string]interface{}\<close>, so that case
  always warns.
\<close>

function parseConfig ::
  "(string \<Rightarrow> string) \<Rightarrow> (string \<times> dyn) list \<Rightarrow> Values \<Rightarrow> string list
     \<Rightarrow> (string \<times> dyn) list \<times> Values \<times> diag list" where
  "parseConfig lc [] values path = ([], values, [])"
| "parseConfig lc ((k, DScalar s) # rest) values path =
     (if k = ''kind'' \<or> k = ''apiVersion''
      then (case parseConfig lc rest values path of
              (rest', values', log) \<Rightarrow> ((k, DScalar s) # rest', values', log))
      else
        (case Add lc values s (path @ [k]) of
           Inl e \<Rightarrow>
             (case parseConfig lc rest values path of
                (rest', values', log) \<Rightarrow> ((k, DScalar s) # rest', values', LogError e [] # log))
         | Inr (templated, values1) \<Rightarrow>
             (case parseConfig lc rest values1 path of
                (rest', values', log) \<Rightarrow>
                  ((k, DScalar (SString templated)) # rest', values', log))))"
| "parseConfig lc ((k, DSlice xs) # rest) values path =
     (case parseConfig lc rest values path of
        (rest', values', log) \<Rightarrow>
          ((k, DSlice xs) # rest', values', LogWarn ''configmap: arrays not supported'' # log))"
| "parseConfig lc ((k, DMap t) # rest) values path =
     (case parseConfig lc t values (path @ [k]) of
        (t', values1, log1) \<Rightarrow>
          (case parseConfig lc rest values1 path of
             (rest', values', log) \<Rightarrow> ((k, DMap t') # rest', values', log1 @ log)))"
| "parseConfig lc ((k, DIfaceMap xs) # rest) values path =
     (case parseConfig lc rest values path of
        (rest', values', log) \<Rightarrow>
          ((k, DIfaceMap xs) # rest', values',
           LogWarn ''configmap: unable to cast to map[string]interface{}'' # log))"
| "parseConfig lc ((k, DOther ty) # rest) values path =
     (case parseConfig lc rest values path of
        (rest', values', log) \<Rightarrow>
          ((k, DOther ty) # rest', values',
           LogWarn ''configmap: unknown type '' # Stdout (''\<newline>'' @ ty @ ''\<newline>'') # log))"
  by pat_completeness auto
termination
  by (relation "measure (\<lambda>(lc, config, values, path). size_list (size_prod (\<lambda>_. 0) size) config)")
    auto

text \<open>
  \<open>parseYaml\<close>: the YAML library (\<open>sigs.k8s.io/yaml\<close>) is outside the repository; its
  two functions are parameters.  The Values Tree keeps what \<open>parseConfig\<close> added even
  when marshalling fails afterwards.
\<close>

record yamllib =
  Unmarshal :: "string \<Rightarrow> error + (string \<times> dyn) list"
  Marshal :: "(string \<times> dyn) list \<Rightarrow> error + string"

definition parseYaml ::
  "(string \<Rightarrow> string) \<Rightarrow> yamllib \<Rightarrow> string \<Rightarrow> string list \<Rightarrow> Values
     \<Rightarrow> (error + string) \<times> Values \<times> diag list" where
  "parseYaml lc yl v path values =
     (case Unmarshal yl v of
        Inl e \<Rightarrow> (Inl (Wrap (''unable to unmarshal configmap '' @ fmtPath path) e), values, [])
      | Inr config \<Rightarrow>
          (case parseConfig lc config values path of
             (config', values', log) \<Rightarrow>
               (case Marshal yl config' of
                  Inl e \<Rightarrow>
                    (Inl (Wrap (''unable to marshal configmap '' @ fmtPath path) e), values', log)
                | Inr confBytes \<Rightarrow> (Inr confBytes, values', log))))"

section \<open>ConfigMap: the data entries\<close>

text \<open>
  \<open>parseMapData\<close>: the loop over the entries of \<open>data\<close>, in the order of the visit.  An
  entry whose extraction fails is logged and left as it is (\<open>continue\<close>); the others are
  replaced by their templated text.  All entries share one Values Tree.
\<close>

definition unableToProcess :: "string list \<Rightarrow> string" where
  "unableToProcess valuesNamePath = ''unable to process configmap data: '' @ fmtPath valuesNamePath"

fun parseMapEntries ::
  "(string \<Rightarrow> string) \<Rightarrow> yamllib \<Rightarrow> (string \<times> string) list \<Rightarrow> string \<Rightarrow> Values
     \<Rightarrow> (string \<times> string) list \<times> Values \<times> diag list" where
  "parseMapEntries lc yl [] configName values = ([], values, [])"
| "parseMapEntries lc yl ((key, v) # rest) configName values =
     (let valuesNamePath = [configName, key] in
      if HasSuffix key ''.yaml'' \<or> HasSuffix key ''.yml'' then
        (case parseYaml lc yl v valuesNamePath values of
           (Inl e, values1, log1) \<Rightarrow>
             (case parseMapEntries lc yl rest configName values1 of
                (rest', values', log) \<Rightarrow>
                  ((key, v) # rest', values',
                   log1 @ LogError e (unableToProcess valuesNamePath) # log))
         | (Inr templated, values1, log1) \<Rightarrow>
             (case parseMapEntries lc yl rest configName values1 of
                (rest', values', log) \<Rightarrow> ((key, templated) # rest', values', log1 @ log)))
      else if HasSuffix key ''.properties'' then
        (case parseProperties lc v valuesNamePath values of
           (Inl e, values1) \<Rightarrow>
             (case parseMapEntries lc yl rest configName values1 of
                (rest', values', log) \<Rightarrow>
                  ((key, v) # rest', values', LogError e (unableToProcess valuesNamePath) # log))
         | (Inr templated, values1) \<Rightarrow>
             (case parseMapEntries lc yl rest configName values1 of
                (rest', values', log) \<Rightarrow> ((key, templated) # rest', values', log)))
      else
        (case Add lc values (SString v) valuesNamePath of
           Inl e \<Rightarrow>
             (case parseMapEntries lc yl rest configName values of
                (rest', values', log) \<Rightarrow>
                  ((key, v) # rest', values', LogError e (unableToProcess valuesNamePath) # log))
         | Inr (templatedVal, values1) \<Rightarrow>
             (case parseMapEntries lc yl rest configName values1 of
                (rest', values', log) \<Rightarrow> ((key, templatedVal) # rest', values', log))))"

definition parseMapData ::
  "(string \<Rightarrow> string) \<Rightarrow> yamllib \<Rightarrow> (string \<times> string) list \<Rightarrow> string
     \<Rightarrow> (string \<times> string) list \<times> Values \<times> diag list" where
  "parseMapData lc yl entries configName = parseMapEntries lc yl entries configName fmempty"

section \<open>ConfigMap: the processor\<close>

text \<open>
  The decoded ConfigMap, with the fields \<open>Process\<close> reads: the group, version and kind,
  and \<open>immutable\<close>, \<open>binaryData\<close> and \<open>data\<close>, each \<open>None\<close> when the accessor of
  \<open>unstructured\<close> reports that it does not exist.  \<open>processor.ProcessMetadata\<close> and
  \<open>yamlformat.Marshal\<close> are not among the source files; they are parameters.
\<close>

record cm_object =
  objGroupVersionKind :: "string \<times> string \<times> string"
  objMetadata :: "(string \<times> dyn) list"
  objImmutable :: "bool option"
  objBinaryData :: "(string \<times> string) list option"
  objData :: "(string \<times> string) list option"

record cm_deps =
  depLowerCamel :: "string \<Rightarrow> string"
  depYaml :: yamllib
  depProcessMetadata :: "cm_object \<Rightarrow> error + (string \<times> string)"
  depMarshal :: "dyn \<Rightarrow> nat \<Rightarrow> error + string"

record cm_result =
  result_name :: string
  result_data :: string
  result_values :: Values

definition configMapGVC :: "string \<times> string \<times> string" where
  "configMapGVC = ('''', ''v1'', ''ConfigMap'')"

definition stringMap :: "(string \<times> string) list \<Rightarrow> dyn" where
  "stringMap m = DMap (map (\<lambda>(k, v). (k, DScalar (SString v))) m)"

definition cm_Process ::
  "cm_deps \<Rightarrow> cm_object \<Rightarrow> bool \<times> cm_result option \<times> error option \<times> diag list" where
  "cm_Process deps obj =
     (if objGroupVersionKind obj \<noteq> configMapGVC then (False, None, None, [])
      else case depProcessMetadata deps obj of
        Inl err \<Rightarrow> (True, None, Some err, [])
      | Inr (name, template0) \<Rightarrow>
      (case (case objImmutable obj of
               None \<Rightarrow> Inr template0
             | Some immutable \<Rightarrow>
                 (case depMarshal deps (DMap [(''immutable'', DScalar (SBool immutable))]) 0 of
                    Inl err \<Rightarrow> Inl err
                  | Inr immutableStr \<Rightarrow> Inr (template0 @ immutableStr @ ''\<newline>''))) of
        Inl err \<Rightarrow> (True, None, Some err, [])
      | Inr template1 \<Rightarrow>
      (case (case objBinaryData obj of
               None \<Rightarrow> Inr template1
             | Some binaryData \<Rightarrow>
                 (case depMarshal deps (DMap [(''binaryData'', stringMap binaryData)]) 0 of
                    Inl err \<Rightarrow> Inl err
                  | Inr binaryDataStr \<Rightarrow> Inr (template1 @ binaryDataStr @ ''\<newline>''))) of
        Inl err \<Rightarrow> (True, None, Some err, [])
      | Inr template2 \<Rightarrow>
      (case objData obj of
         None \<Rightarrow>
           (True,
            Some \<lparr>result_name = name @ ''.yaml'', result_data = template2,
                  result_values = fmempty\<rparr>,
            None, [])
       | Some data0 \<Rightarrow>
           (case parseMapData (depLowerCamel deps) (depYaml deps) data0 name of
              (data1, values, log) \<Rightarrow>
                (case depMarshal deps (DMap [(''data'', stringMap data1)]) 0 of
                   Inl err \<Rightarrow> (True, None, Some err, log)
                 | Inr dataStr \<Rightarrow>
                     (True,
                      Some \<lparr>result_name = name @ ''.yaml'',
                            result_data = template2 @ StripQuotes dataStr,
                            result_values = values\<rparr>,
                      None, log)))))))"

section \<open>StatefulSet: the typed resource\<close>

text \<open>
  The fields of \<open>appsv1.StatefulSet\<close> and \<open>corev1.PodSpec\<close> that the processor reads or
  rewrites.  A Go pointer that may be \<open>nil\<close> is an \<open>option\<close>; a reference to a Secret or
  a ConfigMap is the name it holds.  A \<open>ResourceList\<close> is a map from the resource name
  to a quantity, kept as the string that \<open>ToUnstructured\<close> gives.
\<close>

record EnvVarSource =
  SecretKeyRef :: "string option"
  ConfigMapKeyRef :: "string option"

record EnvVar =
  envName :: string
  envValue :: string
  envValueFrom :: "EnvVarSource option"

record EnvFromSource =
  SecretRef :: "string option"
  ConfigMapRef :: "string option"

record ResourceRequirements =
  Requests :: "(string \<times> string) list"
  Limits :: "(string \<times> string) list"

record Container =
  cName :: string
  cImage :: string
  cEnv :: "EnvVar list"
  cEnvFrom :: "EnvFromSource list"
  cResources :: ResourceRequirements

record Volume =
  volName :: string
  volConfigMap :: "string option"
  volSecret :: "string option"
  volPersistentVolumeClaim :: "string option"

record PodSpec =
  Containers :: "Container list"
  Volumes :: "Volume list"
  ServiceAccountName :: string
  ImagePullSecrets :: "string list"

record LabelSelector =
  MatchLabels :: "(string \<times> string) list"
  MatchExpressions :: "dyn list option"

record StatefulSet =
  ssReplicas :: "int option"
  ssSelector :: "LabelSelector option"
  ssTemplateLabels :: "(string \<times> string) list"
  ssTemplateAnnotations :: "(string \<times> string) list"
  ssTemplateSpec :: PodSpec
  ssVolumeClaimTemplates :: "dyn list"

record ss_object =
  ssGroupVersionKind :: "string \<times> string \<times> string"
  ssGetName :: string
  ssObject :: "(string \<times> dyn) list"

text \<open>
  What \<open>Process\<close> calls outside the two source files: the case library, the metadata
  and naming helpers of the chart (\<open>appMeta\<close>, \<open>processor.ProcessObjMeta\<close>), the YAML
  formatter of the repository (\<open>yamlformat\<close>), the converters of apimachinery, the merge
  of \<open>helmify.Values\<close>, and the two constants of package \<open>cluster\<close>.
\<close>

record ss_deps =
  ToLowerCamel_dep :: "string \<Rightarrow> string"
  TrimName :: "string \<Rightarrow> string"
  TemplatedName :: "string \<Rightarrow> string"
  ChartName :: string
  ProcessObjMeta :: "ss_object \<Rightarrow> error + string"
  yamlMarshal :: "dyn \<Rightarrow> nat \<Rightarrow> error + string"
  yamlIndent :: "string \<Rightarrow> nat \<Rightarrow> string"
  FromUnstructured :: "(string \<times> dyn) list \<Rightarrow> error + StatefulSet"
  ToUnstructured :: "PodSpec \<Rightarrow> error + (string \<times> dyn) list"
  Merge_dep :: "Values \<Rightarrow> Values \<Rightarrow> error + Values"
  DomainEnv :: string
  DomainKey :: string

text \<open>A Go call either returns or panics (a failed type assertion, a \<open>nil\<close> pointer).\<close>

datatype 'a outcome = Returns 'a | Panics string

section \<open>Merging Values Trees\<close>

lemma fmmap_keys_cong [fundef_cong]:
  "m = n \<Longrightarrow> (\<And>k v. fmlookup n k = Some v \<Longrightarrow> f k v = g k v) \<Longrightarrow>
     fmmap_keys f m = fmmap_keys g n"
  by (rule fmap_ext) (auto simp: option.map_comp split: option.splits intro: map_option_cong)

lemma size_fmlookup:
  "fmlookup m k = Some (v::vtree) \<Longrightarrow> size v < Suc (size_fmap (\<lambda>_. 0) size m)"
proof -
  assume "fmlookup m k = Some v"
  then have "(k, v) \<in> fset (fset_of_fmap m)"
    by simp
  then have "(\<lambda>(a, b). Suc (size b)) (k, v)
      \<le> (\<Sum>x\<in>fset (fset_of_fmap m). (\<lambda>(a, b). Suc (size b)) x)"
    by (intro member_le_sum) auto
  then show ?thesis
    by (simp add: case_prod_unfold)
qed

text \<open>
  Modelled from the spec: \<open>Values.Merge\<close> of package \<open>helmify\<close> is not among the source
  files.  Section 4.3: two trees are unified key by key; two mappings under one key are
  merged recursively, two equal scalars are kept, two different scalars or a mapping
  against a scalar make the merge fail, and a failed merge leaves the tree as it was.
  The path that the error names depends on the order in which the keys are met and is
  left out.
\<close>

function Merge_tree :: "vtree \<Rightarrow> vtree \<Rightarrow> error + vtree" where
  "Merge_tree (VLeaf x) (VLeaf y) =
     (if x = y then Inr (VLeaf x) else Inl (Msg ''unable to merge helm values''))"
| "Merge_tree (VLeaf x) (VNode b) = Inl (Msg ''unable to merge helm values'')"
| "Merge_tree (VNode a) (VLeaf y) = Inl (Msg ''unable to merge helm values'')"
| "Merge_tree (VNode a) (VNode b) =
     (let r = fmmap_keys
                (\<lambda>k y. case fmlookup a k of None \<Rightarrow> Inr y | Some x \<Rightarrow> Merge_tree x y) b in
      if fmpred (\<lambda>k x. \<not> isl x) r then Inr (VNode (fmadd a (fmmap projr r)))
      else Inl (Msg ''unable to merge helm values''))"
  by pat_completeness auto
termination
  by (relation "measure (\<lambda>(a, b). size b)") (auto dest: size_fmlookup)

definition Merge :: "Values \<Rightarrow> Values \<Rightarrow> error + Values" where
  "Merge v other =
     (case Merge_tree (VNode v) (VNode other) of
        Inl e \<Rightarrow> Inl e
      | Inr (VNode m) \<Rightarrow> Inr m
      | Inr (VLeaf x) \<Rightarrow> Inl (Msg ''unable to merge helm values''))"

section \<open>StatefulSet: replicas, containers and the pod\<close>

text \<open>\<open>processReplicas\<close>: no replica count, no template text and no value.\<close>

definition processReplicas ::
  "ss_deps \<Rightarrow> string \<Rightarrow> StatefulSet \<Rightarrow> Values \<Rightarrow> error + (string \<times> Values)" where
  "processReplicas deps name statefulset values =
     (case ssReplicas statefulset of
        None \<Rightarrow> Inr ('''', values)
      | Some n \<Rightarrow>
          (case Add (ToLowerCamel_dep deps) values (SInt n) [name, ''replicas''] of
             Inl err \<Rightarrow> Inl err
           | Inr (replicasTpl, values') \<Rightarrow>
               (case yamlMarshal deps (DMap [(''replicas'', DScalar (SString replicasTpl))]) 2 of
                  Inl err \<Rightarrow> Inl err
                | Inr replicas \<Rightarrow> Inr (StripQuotes replicas, values'))))"

text \<open>The image field after rewriting: the two placeholders around the colon, the tag
  with its fallback to the application version of the chart.\<close>

definition imageTemplate :: "string \<Rightarrow> string \<Rightarrow> string" where
  "imageTemplate name containerName =
     ''{{ .Values.'' @ name @ ''.'' @ containerName @ ''.image.repository }}:{{ .Values.''
       @ name @ ''.'' @ containerName @ ''.image.tag | default .Chart.AppVersion }}''"

definition templateEnv :: "(string \<Rightarrow> string) \<Rightarrow> EnvVar \<Rightarrow> EnvVar" where
  "templateEnv tn e =
     (case envValueFrom e of
        None \<Rightarrow> e
      | Some src \<Rightarrow>
          e\<lparr>envValueFrom :=
              Some \<lparr>SecretKeyRef = map_option tn (SecretKeyRef src),
                    ConfigMapKeyRef = map_option tn (ConfigMapKeyRef src)\<rparr>\<rparr>)"

definition templateEnvFrom :: "(string \<Rightarrow> string) \<Rightarrow> EnvFromSource \<Rightarrow> EnvFromSource" where
  "templateEnvFrom tn e =
     \<lparr>SecretRef = map_option tn (SecretRef e), ConfigMapRef = map_option tn (ConfigMapRef e)\<rparr>"

text \<open>The two loops over \<open>c.Resources.Requests\<close> and \<open>c.Resources.Limits\<close>: one nested
  field per resource name, the first failure ends the loop.\<close>

fun setResources ::
  "Values \<Rightarrow> string \<Rightarrow> string \<Rightarrow> string \<Rightarrow> (string \<times> string) list \<Rightarrow> error + Values" where
  "setResources values name containerName section [] = Inr values"
| "setResources values name containerName section ((k, v) # rest) =
     (case SetNestedField values (VLeaf (SString v))
             [name, containerName, ''resources'', section, k] of
        Inl err \<Rightarrow> Inl (Wrap ''unable to set container resources value'' err)
      | Inr values' \<Rightarrow> setResources values' name containerName section rest)"

text \<open>
  \<open>processPodContainer\<close>.  The container is passed by value and returned; the Values
  Tree is written through a pointer.  On an error the caller drops both, so the model
  returns the error alone.
\<close>

definition processPodContainer ::
  "ss_deps \<Rightarrow> string \<Rightarrow> Container \<Rightarrow> Values \<Rightarrow> error + (Container \<times> Values)" where
  "processPodContainer deps name c values =
     (case LastIndex (cImage c) CHR '':'' of
        None \<Rightarrow> Inl (Msg (''wrong image format: '' @ cImage c))
      | Some index \<Rightarrow>
          (let repo = take index (cImage c);
               tag = drop (index + 1) (cImage c);
               containerName = ToLowerCamel_dep deps (cName c);
               c1 = c\<lparr>cImage := imageTemplate name containerName\<rparr>
           in
           case SetNestedField values (VLeaf (SString repo))
                  [name, containerName, ''image'', ''repository''] of
             Inl err \<Rightarrow> Inl (Wrap ''unable to set statefulset value field'' err)
           | Inr values1 \<Rightarrow>
           (case SetNestedField values1 (VLeaf (SString tag))
                   [name, containerName, ''image'', ''tag''] of
              Inl err \<Rightarrow> Inl (Wrap ''unable to set statefulset value field'' err)
            | Inr values2 \<Rightarrow>
            (let c2 = c1\<lparr>cEnv := map (templateEnv (TemplatedName deps)) (cEnv c1),
                        cEnvFrom := map (templateEnvFrom (TemplatedName deps)) (cEnvFrom c1)\<rparr>;
                 c3 = c2\<lparr>cEnv := cEnv c2 @
                        [\<lparr>envName = DomainEnv deps,
                          envValue = ''{{ .Values.'' @ DomainKey deps @ '' }}'',
                          envValueFrom = None\<rparr>]\<rparr>
             in
             case setResources values2 name containerName ''requests''
                    (Requests (cResources c)) of
               Inl err \<Rightarrow> Inl err
             | Inr values3 \<Rightarrow>
             (case setResources values3 name containerName ''limits''
                     (Limits (cResources c)) of
                Inl err \<Rightarrow> Inl err
              | Inr values4 \<Rightarrow> Inr (c3, values4))))))"

text \<open>The loop of \<open>processPodSpec\<close> over the containers, in their order.\<close>

fun processContainers ::
  "ss_deps \<Rightarrow> string \<Rightarrow> Container list \<Rightarrow> Values \<Rightarrow> error + (Container list \<times> Values)" where
  "processContainers deps name [] values = Inr ([], values)"
| "processContainers deps name (c # cs) values =
     (case processPodContainer deps name c values of
        Inl err \<Rightarrow> Inl err
      | Inr (processed, values') \<Rightarrow>
          (case processContainers deps name cs values' of
             Inl err \<Rightarrow> Inl err
           | Inr (cs', values'') \<Rightarrow> Inr (processed # cs', values'')))"

definition templateVolume :: "(string \<Rightarrow> string) \<Rightarrow> Volume \<Rightarrow> Volume" where
  "templateVolume tn v =
     v\<lparr>volConfigMap := map_option tn (volConfigMap v), volSecret := map_option tn (volSecret v)\<rparr>"

definition processPodSpec ::
  "ss_deps \<Rightarrow> string \<Rightarrow> PodSpec \<Rightarrow> error + (PodSpec \<times> Values)" where
  "processPodSpec deps name pod =
     (case processContainers deps name (Containers pod) fmempty of
        Inl err \<Rightarrow> Inl err
      | Inr (cs, values) \<Rightarrow>
          Inr (pod\<lparr>Containers := cs,
                   Volumes := map (templateVolume (TemplatedName deps)) (Volumes pod),
                   ServiceAccountName := TemplatedName deps (ServiceAccountName pod),
                   ImagePullSecrets := map (TemplatedName deps) (ImagePullSecrets pod)\<rparr>,
               values))"

section \<open>Properties of the line-oriented property extractor\<close>

text \<open>
  C9.  The property text \<open>"timeout=30\nretries=5\n"\<close> under the path \<open>[cfg]\<close>, extracted
  into an empty fragment, comes back as
  \<open>"timeout={{ .Values.cfg.timeout }}\nretries={{ .Values.cfg.retries }}\n"\<close>: the lines in
  their order, each \<open>name=<placeholder>\<close>, one trailing newline; and the fragment is
  \<open>{cfg: {timeout: "30", retries: "5"}}\<close>.
\<close>

theorem parseProperties_scenario:
  "parseProperties ToLowerCamel ''timeout=30\<newline>retries=5\<newline>'' [''cfg''] fmempty =
     (Inr ''timeout={{ .Values.cfg.timeout }}\<newline>retries={{ .Values.cfg.retries }}\<newline>'',
      fmupd ''cfg''
        (VNode (fmupd ''retries'' (VLeaf (SString ''5''))
                 (fmupd ''timeout'' (VLeaf (SString ''30'')) fmempty)))
        fmempty)"
proof -
  have lc: "ToLowerCamel ''cfg'' = ''cfg''" "ToLowerCamel ''timeout'' = ''timeout''"
    "ToLowerCamel ''retries'' = ''retries''"
    by code_simp+
  show ?thesis
    by (simp add: parseProperties_def TrimSuffix_def HasSuffix_def Add_def SetNestedField_def
        placeholder_def lc)
qed

end
